theory Spec2Isabelle
  imports Main "HOL-Library.AList"
begin

section \<open>JavaScript values and exceptions\<close>

text \<open>
  The values \<open>parseMETAR\<close> of \<open>src/app.js\<close> receives and builds. An object is the list of
  its own string-keyed properties in insertion order. Of an argument that is not a string
  the function only reads the \<open>typeof\<close> tag, so a number, a symbol and a function carry
  no more than is needed to tell them apart.
\<close>

datatype jsval =
    JUndefined
  | JNull
  | JBoolean bool
  | JNumber int
  | JBigInt int
  | JString string
  | JSymbol string
  | JFunction string
  | JObject "(string \<times> jsval) list"

fun typeof :: "jsval \<Rightarrow> string" where
  "typeof JUndefined = ''undefined''"
| "typeof JNull = ''object''"
| "typeof (JBoolean b) = ''boolean''"
| "typeof (JNumber n) = ''number''"
| "typeof (JBigInt n) = ''bigint''"
| "typeof (JString s) = ''string''"
| "typeof (JSymbol d) = ''symbol''"
| "typeof (JFunction name) = ''function''"
| "typeof (JObject ps) = ''object''"

text \<open>
  \<open>Error msg\<close> is \<open>throw new Error(msg)\<close>; \<open>TypeError\<close> is what the engine throws when a
  property of \<open>undefined\<close> or \<open>null\<close> is read (its message depends on the engine).
\<close>

datatype exn = Error string | TypeError

text \<open>\<open>obj.k = v\<close>: an existing key keeps its place, a new key goes last.\<close>

definition set_prop :: "string \<Rightarrow> jsval \<Rightarrow> (string \<times> jsval) list \<Rightarrow> (string \<times> jsval) list" where
  "set_prop k v obj = AList.update k v obj"

text \<open>\<open>obj.k\<close> on an object value; \<open>None\<close> when the key is absent.\<close>

fun get_prop :: "jsval \<Rightarrow> string \<Rightarrow> jsval option" where
  "get_prop (JObject ps) k = map_of ps k"
| "get_prop v k = None"

fun keys :: "jsval \<Rightarrow> string list" where
  "keys (JObject ps) = map fst ps"
| "keys v = []"

section \<open>Strings and arrays\<close>

text \<open>
  \<open>s.split(sep)\<close> for a one-character separator: a left-to-right scan that closes the
  current piece at every separator. The result always has at least one piece.
\<close>

fun split_scan :: "char \<Rightarrow> string \<Rightarrow> string \<Rightarrow> string list" where
  "split_scan sep cur [] = [cur]"
| "split_scan sep cur (c # cs) =
     (if c = sep then cur # split_scan sep [] cs else split_scan sep (cur @ [c]) cs)"

definition split :: "string \<Rightarrow> char \<Rightarrow> string list" where
  "split s sep = split_scan sep [] s"

text \<open>
  \<open>a.shift()\<close> removes and returns the first element; on an empty array it returns
  \<open>undefined\<close> (here \<open>None\<close>) and leaves the array empty. \<open>a[0]\<close> is \<open>undefined\<close> on an empty
  array.
\<close>

definition shift :: "string list \<Rightarrow> string option \<times> string list" where
  "shift a = (case a of [] \<Rightarrow> (None, []) | x # r \<Rightarrow> (Some x, r))"

definition index0 :: "string list \<Rightarrow> string option" where
  "index0 a = (case a of [] \<Rightarrow> None | x # r \<Rightarrow> Some x)"

definition js_of :: "string option \<Rightarrow> jsval" where
  "js_of v = (case v of None \<Rightarrow> JUndefined | Some s \<Rightarrow> JString s)"

text \<open>The string conversion \<open>RegExp.prototype.test\<close> and \<open>exec\<close> apply to their argument.\<close>

definition ToString :: "string option \<Rightarrow> string" where
  "ToString v = (case v of None \<Rightarrow> ''undefined'' | Some s \<Rightarrow> s)"

section \<open>Regular expressions\<close>

text \<open>
  The fragment of the pattern language the four literals of \<open>parseMETAR\<close> use, with the
  backtracking semantics of the language: a matcher maps a state (position in the
  input, rest of the input, named captures so far) to the list of states it can end in,
  in the order the engine tries them. None of the literals carries a flag, so matching
  starts at index 0 and keeps no state between calls.
\<close>

datatype regex =
    Bol                       \<comment> \<open>\<open>^\<close>\<close>
  | Eol                       \<comment> \<open>\<open>$\<close>\<close>
  | Lit string                \<comment> \<open>literal characters\<close>
  | Digit                     \<comment> \<open>\<open>\d\<close>\<close>
  | WordChar                  \<comment> \<open>\<open>\w\<close>\<close>
  | CharClass "char list"     \<comment> \<open>\<open>[...]\<close>\<close>
  | Cat "regex list"          \<comment> \<open>juxtaposition\<close>
  | Alt regex regex           \<comment> \<open>\<open>a|b\<close>\<close>
  | Opt regex                 \<comment> \<open>\<open>a?\<close>, greedy\<close>
  | Times nat regex           \<comment> \<open>\<open>a{n}\<close>\<close>
  | Group regex               \<comment> \<open>\<open>(a)\<close>\<close>
  | Named string regex        \<comment> \<open>\<open>(?<name>a)\<close>\<close>

type_synonym mstate = "nat \<times> string \<times> (string \<times> string) list"

definition isDigit :: "char \<Rightarrow> bool" where
  "isDigit c \<longleftrightarrow> c \<in> set ''0123456789''"

definition isWordChar :: "char \<Rightarrow> bool" where
  "isWordChar c \<longleftrightarrow>
     c \<in> set ''abcdefghijklmnopqrstuvwxyzABCDEFGHIJKLMNOPQRSTUVWXYZ0123456789_''"

definition match_char :: "(char \<Rightarrow> bool) \<Rightarrow> mstate \<Rightarrow> mstate list" where
  "match_char p st =
     (case st of (i, rest, caps) \<Rightarrow>
        (case rest of [] \<Rightarrow> [] | c # cs \<Rightarrow> if p c then [(Suc i, cs, caps)] else []))"

fun match_lit :: "string \<Rightarrow> mstate \<Rightarrow> mstate list" where
  "match_lit [] st = [st]"
| "match_lit (l # ls) st = concat (map (match_lit ls) (match_char (\<lambda>c. c = l) st))"

definition then_match :: "(mstate \<Rightarrow> mstate list) \<Rightarrow> mstate list \<Rightarrow> mstate list" where
  "then_match m sts = concat (map m sts)"

primrec repeat_match :: "nat \<Rightarrow> (mstate \<Rightarrow> mstate list) \<Rightarrow> mstate \<Rightarrow> mstate list" where
  "repeat_match 0 m st = [st]"
| "repeat_match (Suc n) m st = then_match (repeat_match n m) (m st)"

definition capture :: "string \<Rightarrow> mstate \<Rightarrow> mstate \<Rightarrow> mstate" where
  "capture name st st' =
     (case st of (i, rest, caps) \<Rightarrow>
        (case st' of (i', rest', caps') \<Rightarrow>
           (i', rest', AList.update name (take (i' - i) rest) caps')))"

primrec rmatch :: "regex \<Rightarrow> mstate \<Rightarrow> mstate list" where
  "rmatch Bol st = (if fst st = 0 then [st] else [])"
| "rmatch Eol st = (if fst (snd st) = [] then [st] else [])"
| "rmatch (Lit l) st = match_lit l st"
| "rmatch Digit st = match_char isDigit st"
| "rmatch WordChar st = match_char isWordChar st"
| "rmatch (CharClass cs) st = match_char (\<lambda>c. c \<in> set cs) st"
| "rmatch (Cat rs) st = fold then_match (map rmatch rs) [st]"
| "rmatch (Alt a b) st = rmatch a st @ rmatch b st"
| "rmatch (Opt a) st = rmatch a st @ [st]"
| "rmatch (Times n a) st = repeat_match n (rmatch a) st"
| "rmatch (Group a) st = rmatch a st"
| "rmatch (Named name a) st = map (capture name st) (rmatch a st)"

text \<open>The names of the named groups, in the order they are written.\<close>

primrec group_names :: "regex \<Rightarrow> string list" where
  "group_names Bol = []"
| "group_names Eol = []"
| "group_names (Lit l) = []"
| "group_names Digit = []"
| "group_names WordChar = []"
| "group_names (CharClass cs) = []"
| "group_names (Cat rs) = concat (map group_names rs)"
| "group_names (Alt a b) = group_names a @ group_names b"
| "group_names (Opt a) = group_names a"
| "group_names (Times n a) = group_names a"
| "group_names (Group a) = group_names a"
| "group_names (Named name a) = name # group_names a"

text \<open>
  \<open>re.exec(v)\<close>: the first start index with a match wins, and there the first end state.
  \<open>None\<close> is the \<open>null\<close> of a failed match.
\<close>

definition regex_exec :: "regex \<Rightarrow> string option \<Rightarrow> mstate option" where
  "regex_exec re v =
     (let s = ToString v
      in case concat (map (\<lambda>i. rmatch re (i, drop i s, [])) [0 ..< Suc (length s)]) of
           [] \<Rightarrow> None
         | m # ms \<Rightarrow> Some m)"

definition regex_test :: "regex \<Rightarrow> string option \<Rightarrow> bool" where
  "regex_test re v \<longleftrightarrow> regex_exec re v \<noteq> None"

text \<open>
  \<open>m.groups\<close> of a match: every named group of the pattern is a key, with \<open>undefined\<close> for
  a group that took no part in the match. Reading it from \<open>null\<close> throws.
\<close>

definition groups :: "regex \<Rightarrow> mstate option \<Rightarrow> exn + jsval" where
  "groups re m =
     (case m of
        None \<Rightarrow> Inl TypeError
      | Some (i, rest, caps) \<Rightarrow>
          Inr (JObject (map (\<lambda>n. (n, js_of (map_of caps n))) (group_names re))))"

section \<open>The parser\<close>

definition reportTypeRegex :: regex where
  "reportTypeRegex =
     Cat [Bol, Named ''reportType'' (Alt (Lit ''METAR'') (Lit ''SPECI'')), Eol]"

definition timeRegex :: regex where
  "timeRegex =
     Cat [Bol,
          Named ''dayOfMonth'' (Times 2 Digit),
          Named ''hours'' (Cat [Digit, Digit]),
          Named ''mins'' (Cat [Digit, Digit]),
          Named ''timezone'' (CharClass ''Z''),
          Eol]"

definition modifierRegex :: regex where
  "modifierRegex =
     Cat [Bol, Named ''modifier'' (Alt (Lit ''AUTO'') (Lit ''COR'')), Eol]"

definition windRegex :: regex where
  "windRegex =
     Cat [Bol,
          Named ''direction'' (Alt (Lit ''VBR'') (Times 3 Digit)),
          Named ''speed'' (Cat [Digit, Digit]),
          Opt (Group (Cat [Lit ''G'', Named ''gustingSpeed'' (Cat [Digit, Digit])])),
          Named ''speedUnits'' (Cat [WordChar, WordChar]),
          Eol]"

text \<open>
  The state the body of \<open>parseMETAR\<close> threads through its steps: the array \<open>splitData\<close>
  and the object \<open>result\<close>.
\<close>

type_synonym pstate = "string list \<times> (string \<times> jsval) list"

text \<open>Lines 71-75: the optional report type.\<close>

definition parseReportType :: "pstate \<Rightarrow> pstate" where
  "parseReportType st =
     (case st of (splitData, result) \<Rightarrow>
        (let hasReportType =
               (length splitData > 0 \<and> regex_test reportTypeRegex (index0 splitData))
         in if hasReportType
            then (case shift splitData of (v, splitData') \<Rightarrow>
                    (splitData', set_prop ''reportType'' (js_of v) result))
            else (splitData, result)))"

text \<open>Line 78: the station identifier, taken whatever it is.\<close>

definition parseICAO :: "pstate \<Rightarrow> pstate" where
  "parseICAO st =
     (case st of (splitData, result) \<Rightarrow>
        (case shift splitData of (v, splitData') \<Rightarrow>
           (splitData', set_prop ''ICAO'' (js_of v) result)))"

text \<open>Lines 94-98: the date and time; the token is removed whether it matches or not.\<close>

definition parseTime :: "pstate \<Rightarrow> exn + pstate" where
  "parseTime st =
     (case st of (splitData, result) \<Rightarrow>
        (case shift splitData of (time, splitData') \<Rightarrow>
           if regex_test timeRegex time
           then (case groups timeRegex (regex_exec timeRegex time) of
                   Inl e \<Rightarrow> Inl e
                 | Inr g \<Rightarrow> Inr (splitData', set_prop ''timestamp'' g result))
           else Inr (splitData', result)))"

text \<open>Lines 106-110: the optional station modifier.\<close>

definition parseModifier :: "pstate \<Rightarrow> pstate" where
  "parseModifier st =
     (case st of (splitData, result) \<Rightarrow>
        (let hasModifier =
               (length splitData > 0 \<and> regex_test modifierRegex (index0 splitData))
         in if hasModifier
            then (case shift splitData of (v, splitData') \<Rightarrow>
                    (splitData', set_prop ''modifier'' (js_of v) result))
            else (splitData, result)))"

text \<open>
  Lines 124-129: the wind group. \<open>wind.length\<close> is read before anything else, so an
  exhausted array (\<open>wind\<close> is \<open>undefined\<close>) throws.
\<close>

definition parseWind :: "pstate \<Rightarrow> exn + pstate" where
  "parseWind st =
     (case st of (splitData, result) \<Rightarrow>
        (case shift splitData of (wind, splitData') \<Rightarrow>
           (case wind of
              None \<Rightarrow> Inl TypeError
            | Some w \<Rightarrow>
                (let hasWind = (length w > 0 \<and> regex_test windRegex wind)
                 in if hasWind
                    then (case groups windRegex (regex_exec windRegex wind) of
                            Inl e \<Rightarrow> Inl e
                          | Inr g \<Rightarrow> Inr (splitData', set_prop ''wind'' g result))
                    else Inr (splitData', result)))))"

text \<open>
  The state just before the wind step (lines 63-110), or the exception thrown on the
  way.
\<close>

definition beforeWind :: "string \<Rightarrow> exn + pstate" where
  "beforeWind s =
     (let result = [];
          splitData = split s (CHR '' '')
      in if length splitData = 0 then Inl (Error ''ERROR: Invalid data length'')
         else (case parseTime (parseICAO (parseReportType (splitData, result))) of
                 Inl e \<Rightarrow> Inl e
               | Inr st \<Rightarrow> Inr (parseModifier st)))"

text \<open>
  \<open>parseMETAR\<close>, lines 56-174. \<open>typeof data !== 'string'\<close> holds of every value but a
  \<open>JString\<close>.
\<close>

definition parseMETAR :: "jsval \<Rightarrow> exn + jsval" where
  "parseMETAR data =
     (case data of
        JString s \<Rightarrow>
          (case beforeWind s of
             Inl e \<Rightarrow> Inl e
           | Inr st \<Rightarrow>
               (case parseWind st of
                  Inl e \<Rightarrow> Inl e
                | Inr (splitData, result) \<Rightarrow>
                    Inr (JObject [(''METAR'', data), (''parsedMETAR'', JObject result)])))
      | _ \<Rightarrow> Inl (Error ''ERROR: Invalid data; must be a string''))"

section \<open>Regular expression objects\<close>

text \<open>
  The mutable state \<open>parseMETAR\<close> touches. A \<open>RegExp\<close> object carries its pattern, the
  flags \<open>g\<close> and \<open>y\<close>, and the writable property \<open>lastIndex\<close>; \<open>exec\<close> and \<open>test\<close> read and
  write \<open>lastIndex\<close> when one of the flags is set, and with it a second call on the same
  object can answer differently from the first. The heap is the list of the \<open>RegExp\<close>
  objects alive, an address is a position in it. The function reads no variable of the
  module (\<open>API_KEY\<close> and \<open>API_URL\<close> are constants it does not mention), and \<open>splitData\<close> and
  \<open>result\<close> are made anew in every call, so these objects are all the state there is to
  carry from one call to the next.
\<close>

record regexp =
  source :: regex
  global :: bool
  sticky :: bool
  lastIndex :: nat

type_synonym heap = "regexp list"

text \<open>
  A regular expression literal makes a new object each time control reaches it. The
  four literals of \<open>parseMETAR\<close> carry no flag.
\<close>

definition new_regexp :: "regex \<Rightarrow> heap \<Rightarrow> nat \<times> heap" where
  "new_regexp re h =
     (length h, h @ [\<lparr>source = re, global = False, sticky = False, lastIndex = 0\<rparr>])"

text \<open>
  \<open>R.exec(v)\<close> with its effect on \<open>R\<close>: matching starts at \<open>lastIndex\<close> when \<open>g\<close> or \<open>y\<close> is set
  and at 0 otherwise; with \<open>y\<close> only that index is tried; a start beyond the end of the
  string fails. When \<open>g\<close> or \<open>y\<close> is set, a match stores its end in \<open>lastIndex\<close> and a failure
  stores 0; without them \<open>lastIndex\<close> is not written.
\<close>

definition builtin_exec :: "regexp \<Rightarrow> string option \<Rightarrow> mstate option \<times> regexp" where
  "builtin_exec R v =
     (let s = ToString v;
          flagged = (global R \<or> sticky R);
          start = (if flagged then lastIndex R else 0);
          tries = (if length s < start then []
                   else if sticky R then [start]
                   else [start ..< Suc (length s)])
      in case concat (map (\<lambda>i. rmatch (source R) (i, drop i s, [])) tries) of
           [] \<Rightarrow> (None, if flagged then R\<lparr>lastIndex := 0\<rparr> else R)
         | m # ms \<Rightarrow> (Some m, if flagged then R\<lparr>lastIndex := fst m\<rparr> else R))"

text \<open>
  \<open>exec\<close>, \<open>test\<close> and \<open>groups\<close> through an address. An address is always one that
  \<open>new_regexp\<close> returned on a heap this one extends, so it is in range.
\<close>

definition exec_at :: "nat \<Rightarrow> string option \<Rightarrow> heap \<Rightarrow> mstate option \<times> heap" where
  "exec_at a v h = (case builtin_exec (h ! a) v of (m, R') \<Rightarrow> (m, h[a := R']))"

definition test_at :: "nat \<Rightarrow> string option \<Rightarrow> heap \<Rightarrow> bool \<times> heap" where
  "test_at a v h = (case exec_at a v h of (m, h') \<Rightarrow> (m \<noteq> None, h'))"

definition groups_at :: "nat \<Rightarrow> mstate option \<Rightarrow> heap \<Rightarrow> exn + jsval" where
  "groups_at a m h = groups (source (h ! a)) m"

text \<open>
  The steps of \<open>parseMETAR\<close> once more, now with the heap threaded through them in the
  order of the source: each literal is evaluated where it stands (lines 71, 95, 106 and
  125), and every \<open>test\<close> and \<open>exec\<close> goes through the object. \<open>&&\<close> does not evaluate its
  right operand when the left one is false.
\<close>

definition parseReportType_h :: "pstate \<Rightarrow> heap \<Rightarrow> pstate \<times> heap" where
  "parseReportType_h st h =
     (case st of (splitData, result) \<Rightarrow>
        (case new_regexp reportTypeRegex h of (reportTypeRegex', h1) \<Rightarrow>
           (case (if length splitData > 0 then test_at reportTypeRegex' (index0 splitData) h1
                  else (False, h1)) of
              (hasReportType, h2) \<Rightarrow>
                if hasReportType
                then (case shift splitData of (v, splitData') \<Rightarrow>
                        ((splitData', set_prop ''reportType'' (js_of v) result), h2))
                else ((splitData, result), h2))))"

definition parseICAO_h :: "pstate \<Rightarrow> heap \<Rightarrow> pstate \<times> heap" where
  "parseICAO_h st h = (parseICAO st, h)"

definition parseTime_h :: "pstate \<Rightarrow> heap \<Rightarrow> (exn + pstate) \<times> heap" where
  "parseTime_h st h =
     (case st of (splitData, result) \<Rightarrow>
        (case shift splitData of (time, splitData') \<Rightarrow>
           (case new_regexp timeRegex h of (timeRegex', h1) \<Rightarrow>
              (case test_at timeRegex' time h1 of (matched, h2) \<Rightarrow>
                 if matched
                 then (case exec_at timeRegex' time h2 of (m, h3) \<Rightarrow>
                         (case groups_at timeRegex' m h3 of
                            Inl e \<Rightarrow> (Inl e, h3)
                          | Inr g \<Rightarrow> (Inr (splitData', set_prop ''timestamp'' g result), h3)))
                 else (Inr (splitData', result), h2)))))"

definition parseModifier_h :: "pstate \<Rightarrow> heap \<Rightarrow> pstate \<times> heap" where
  "parseModifier_h st h =
     (case st of (splitData, result) \<Rightarrow>
        (case new_regexp modifierRegex h of (modifierRegex', h1) \<Rightarrow>
           (case (if length splitData > 0 then test_at modifierRegex' (index0 splitData) h1
                  else (False, h1)) of
              (hasModifier, h2) \<Rightarrow>
                if hasModifier
                then (case shift splitData of (v, splitData') \<Rightarrow>
                        ((splitData', set_prop ''modifier'' (js_of v) result), h2))
                else ((splitData, result), h2))))"

definition parseWind_h :: "pstate \<Rightarrow> heap \<Rightarrow> (exn + pstate) \<times> heap" where
  "parseWind_h st h =
     (case st of (splitData, result) \<Rightarrow>
        (case shift splitData of (wind, splitData') \<Rightarrow>
           (case new_regexp windRegex h of (windRegex', h1) \<Rightarrow>
              (case wind of
                 None \<Rightarrow> (Inl TypeError, h1)
               | Some w \<Rightarrow>
                   (case (if length w > 0 then test_at windRegex' wind h1 else (False, h1)) of
                      (hasWind, h2) \<Rightarrow>
                        if hasWind
                        then (case exec_at windRegex' wind h2 of (m, h3) \<Rightarrow>
                                (case groups_at windRegex' m h3 of
                                   Inl e \<Rightarrow> (Inl e, h3)
                                 | Inr g \<Rightarrow> (Inr (splitData', set_prop ''wind'' g result), h3)))
                        else (Inr (splitData', result), h2))))))"

text \<open>\<open>parseMETAR\<close> called in a heap: what it returns or throws, and the heap it leaves.\<close>

definition parseMETAR_h :: "heap \<Rightarrow> jsval \<Rightarrow> (exn + jsval) \<times> heap" where
  "parseMETAR_h h data =
     (case data of
        JString s \<Rightarrow>
          (let result = [];
               splitData = split s (CHR '' '')
           in if length splitData = 0 then (Inl (Error ''ERROR: Invalid data length''), h)
              else
                (case parseReportType_h (splitData, result) h of (st1, h1) \<Rightarrow>
                 case parseICAO_h st1 h1 of (st2, h2) \<Rightarrow>
                 case parseTime_h st2 h2 of
                   (Inl e, h3) \<Rightarrow> (Inl e, h3)
                 | (Inr st3, h3) \<Rightarrow>
                     (case parseModifier_h st3 h3 of (st4, h4) \<Rightarrow>
                      case parseWind_h st4 h4 of
                        (Inl e, h5) \<Rightarrow> (Inl e, h5)
                      | (Inr (splitData', result'), h5) \<Rightarrow>
                          (Inr (JObject [(''METAR'', data), (''parsedMETAR'', JObject result')]),
                           h5))))
      | _ \<Rightarrow> (Inl (Error ''ERROR: Invalid data; must be a string''), h))"

section \<open>Token shapes named by the specification\<close>

text \<open>
  The forms the specification gives in words for the date/time and the wind token, as
  predicates on the token, to compare the patterns of the code with. \<open>timeForm\<close> is
  DDHHMMZ: two digits each for day, hour and minute, then the letter Z.
\<close>

fun timeForm :: "string \<Rightarrow> bool" where
  "timeForm [d1, d2, h1, h2, m1, m2, z] =
     (isDigit d1 \<and> isDigit d2 \<and> isDigit h1 \<and> isDigit h2 \<and> isDigit m1 \<and> isDigit m2 \<and>
      z = CHR ''Z'')"
| "timeForm t = False"

text \<open>
  \<open>windForm dir unit\<close>: a 3-character direction accepted by \<open>dir\<close>, a 2-digit speed, an
  optional G with a 2-digit gust, and two unit characters accepted by \<open>unit\<close>.
\<close>

fun windForm :: "(string \<Rightarrow> bool) \<Rightarrow> (char \<Rightarrow> bool) \<Rightarrow> string \<Rightarrow> bool" where
  "windForm dir unit [d1, d2, d3, s1, s2, u1, u2] =
     (dir [d1, d2, d3] \<and> isDigit s1 \<and> isDigit s2 \<and> unit u1 \<and> unit u2)"
| "windForm dir unit [d1, d2, d3, s1, s2, g, g1, g2, u1, u2] =
     (dir [d1, d2, d3] \<and> isDigit s1 \<and> isDigit s2 \<and> g = CHR ''G'' \<and> isDigit g1 \<and> isDigit g2 \<and>
      unit u1 \<and> unit u2)"
| "windForm dir unit w = False"

text \<open>The wind sub-record a token of that form decomposes into.\<close>

fun windRecord :: "string \<Rightarrow> jsval" where
  "windRecord [d1, d2, d3, s1, s2, u1, u2] =
     JObject [(''direction'', JString [d1, d2, d3]),
              (''speed'', JString [s1, s2]),
              (''gustingSpeed'', JUndefined),
              (''speedUnits'', JString [u1, u2])]"
| "windRecord [d1, d2, d3, s1, s2, g, g1, g2, u1, u2] =
     JObject [(''direction'', JString [d1, d2, d3]),
              (''speed'', JString [s1, s2]),
              (''gustingSpeed'', JString [g1, g2]),
              (''speedUnits'', JString [u1, u2])]"
| "windRecord w = JUndefined"

definition isLetter :: "char \<Rightarrow> bool" where
  "isLetter c \<longleftrightarrow> c \<in> set ''abcdefghijklmnopqrstuvwxyzABCDEFGHIJKLMNOPQRSTUVWXYZ''"

definition threeDigits :: "string \<Rightarrow> bool" where
  "threeDigits d \<longleftrightarrow> length d = 3 \<and> list_all isDigit d"

text \<open>The direction as the specification words it: the marker VRB or three digits.\<close>

definition specDirection :: "string \<Rightarrow> bool" where
  "specDirection d \<longleftrightarrow> d = ''VRB'' \<or> threeDigits d"

text \<open>The direction as \<open>windRegex\<close> spells it: the letters VBR or three digits.\<close>

definition codeDirection :: "string \<Rightarrow> bool" where
  "codeDirection d \<longleftrightarrow> d = ''VBR'' \<or> threeDigits d"

text \<open>Either spelling of the marker, or three digits.\<close>

definition anyDirection :: "string \<Rightarrow> bool" where
  "anyDirection d \<longleftrightarrow> d = ''VRB'' \<or> d = ''VBR'' \<or> threeDigits d"

section \<open>Guarded results\<close>

text \<open>
  A matching step on a token whose characters are known either fails or ends in one
  state; \<open>guard\<close> writes that outcome, so that the condition of a whole pattern is
  collected by rewriting.
\<close>

definition guard :: "bool \<Rightarrow> 'a list \<Rightarrow> 'a list" where
  "guard b xs = (if b then xs else [])"

text \<open>The keys the steps before the wind step can set.\<close>

definition earlyKeys :: "string set" where
  "earlyKeys = {''reportType'', ''ICAO'', ''timestamp'', ''modifier''}"

section \<open>Values, objects and arrays\<close>

lemma typeof_string_iff: "typeof v = ''string'' \<longleftrightarrow> (\<exists>s. v = JString s)"
  by (cases v) simp_all

lemma keys_set_prop: "fst ` set (set_prop k v obj) = insert k (fst ` set obj)"
  by (simp add: set_prop_def dom_update)

lemma map_of_set_prop:
  "map_of (set_prop k v obj) k' = (if k' = k then Some v else map_of obj k')"
  by (simp add: set_prop_def update_conv)

lemma set_prop_new: "k \<notin> fst ` set obj \<Longrightarrow> set_prop k v obj = obj @ [(k, v)]"
  unfolding set_prop_def by (induction obj) auto

lemma split_scan_nonempty: "split_scan sep cur s \<noteq> []"
  by (induction s arbitrary: cur) simp_all

lemma split_nonempty: "split s sep \<noteq> []"
  by (simp add: split_def split_scan_nonempty)

section \<open>Matching\<close>

lemma fold_then_match_Nil: "fold then_match ms [] = []"
  by (induction ms) (simp_all add: then_match_def)

lemma rmatch_Bol_later: "Suc 0 \<le> i \<Longrightarrow> rmatch (Cat (Bol # rs)) (i, r, c) = []"
  by (simp add: then_match_def fold_then_match_Nil)

lemma regex_exec_anchored:
  "regex_exec (Cat (Bol # rs)) v =
     (case rmatch (Cat (Bol # rs)) (0, ToString v, []) of [] \<Rightarrow> None | m # ms \<Rightarrow> Some m)"
proof -
  let ?f = "\<lambda>i. rmatch (Cat (Bol # rs)) (i, drop i (ToString v), [])"
  have "concat (map ?f [Suc 0 ..< Suc (length (ToString v))]) = []"
    by (auto simp: rmatch_Bol_later simp del: rmatch.simps)
  then have "concat (map ?f [0 ..< Suc (length (ToString v))]) = ?f 0"
    by (simp add: upt_conv_Cons del: rmatch.simps upt_Suc)
  then show ?thesis
    by (simp add: regex_exec_def Let_def del: rmatch.simps upt_Suc)
qed

lemma guard_simps:
  "guard b [] = []"
  "guard True xs = xs"
  "guard False xs = []"
  "guard b (guard b' xs) = guard (b \<and> b') xs"
  "map f (guard b xs) = guard b (map f xs)"
  "concat (guard b xss) = guard b (concat xss)"
  "then_match m (guard b xs) = guard b (then_match m xs)"
  by (simp_all add: guard_def then_match_def)

lemma then_match_simps:
  "then_match m [] = []"
  "then_match m (st # sts) = m st @ then_match m sts"
  "then_match m (xs @ ys) = then_match m xs @ then_match m ys"
  by (simp_all add: then_match_def)

lemma match_char_simps:
  "match_char p (i, [], caps) = []"
  "match_char p (i, c # cs, caps) = guard (p c) [(Suc i, cs, caps)]"
  by (simp_all add: match_char_def guard_def)

lemma capture_simp:
  "capture name (i, rest, caps) (i', rest', caps') =
     (i', rest', AList.update name (take (i' - i) rest) caps')"
  by (simp add: capture_def)

lemmas matcher_simps = guard_simps then_match_simps match_char_simps capture_simp ToString_def
  numeral_3_eq_3 numeral_2_eq_2

lemma isDigit_not_V: "isDigit c \<Longrightarrow> c \<noteq> CHR ''V''"
  by (auto simp: isDigit_def)

lemma wind_test_iff:
  "regex_test windRegex (Some w) \<longleftrightarrow> windForm codeDirection isWordChar w"
  unfolding windRegex_def regex_test_def regex_exec_anchored
  apply (induction codeDirection isWordChar w rule: windForm.induct)
  apply (simp_all add: matcher_simps)
  apply (auto simp: guard_def codeDirection_def threeDigits_def dest: isDigit_not_V)
  done

lemma wind_groups:
  "windForm codeDirection isWordChar w \<Longrightarrow>
     groups windRegex (regex_exec windRegex (Some w)) = Inr (windRecord w)"
  unfolding windRegex_def regex_exec_anchored
  apply (induction codeDirection isWordChar w rule: windForm.induct)
  apply (simp_all add: matcher_simps)
  apply (auto simp: guard_def groups_def js_of_def codeDirection_def threeDigits_def
              dest: isDigit_not_V)
  done

lemma time_test_iff: "regex_test timeRegex (Some t) \<longleftrightarrow> timeForm t"
  unfolding timeRegex_def regex_test_def regex_exec_anchored
  apply (induction t rule: timeForm.induct)
  apply (simp_all add: matcher_simps)
  apply (auto simp: guard_def)
  done

lemma groups_of_match: "regex_test re v \<Longrightarrow> \<exists>ps. groups re (regex_exec re v) = Inr (JObject ps)"
  by (auto simp: regex_test_def groups_def)

section \<open>The steps of the parser\<close>

lemma parseReportType_cases:
  "parseReportType (q, res) = (q, res) \<or>
   (\<exists>t q'. q = t # q' \<and> parseReportType (q, res) = (q', set_prop ''reportType'' (JString t) res))"
  by (cases q) (simp_all add: parseReportType_def shift_def js_of_def index0_def)

lemma parseModifier_cases:
  "parseModifier (q, res) = (q, res) \<or>
   (\<exists>t q'. q = t # q' \<and> parseModifier (q, res) = (q', set_prop ''modifier'' (JString t) res))"
  by (cases q) (simp_all add: parseModifier_def shift_def js_of_def index0_def)

lemma parseICAO_Nil: "parseICAO ([], res) = ([], set_prop ''ICAO'' JUndefined res)"
  by (simp add: parseICAO_def shift_def js_of_def)

lemma parseICAO_Cons: "parseICAO (t # q, res) = (q, set_prop ''ICAO'' (JString t) res)"
  by (simp add: parseICAO_def shift_def js_of_def)

lemma parseTime_cases:
  "parseTime (q, res) = Inr (tl q, res) \<or>
   (\<exists>ps. parseTime (q, res) = Inr (tl q, set_prop ''timestamp'' (JObject ps) res))"
proof (cases "regex_test timeRegex (fst (shift q))")
  case True
  from groups_of_match [OF this] obtain ps
    where "groups timeRegex (regex_exec timeRegex (fst (shift q))) = Inr (JObject ps)" ..
  with True show ?thesis
    by (cases q) (auto simp: parseTime_def shift_def)
next
  case False
  then show ?thesis
    by (cases q) (simp_all add: parseTime_def shift_def)
qed

lemma parseTime_mismatch: "\<not> timeForm t \<Longrightarrow> parseTime (t # q, res) = Inr (q, res)"
  by (simp add: parseTime_def shift_def time_test_iff)

lemma parseWind_Nil: "parseWind ([], res) = Inl TypeError"
  by (simp add: parseWind_def shift_def)

lemma parseWind_Cons:
  "parseWind (w # q, res) =
     Inr (q, if windForm codeDirection isWordChar w
             then set_prop ''wind'' (windRecord w) res else res)"
proof (cases "windForm codeDirection isWordChar w")
  case True
  then have "w \<noteq> []" by auto
  with True show ?thesis
    by (simp add: parseWind_def shift_def wind_test_iff wind_groups)
next
  case False
  then show ?thesis
    by (simp add: parseWind_def shift_def wind_test_iff)
qed


section \<open>The parser as a whole\<close>

lemma beforeWind_shape:
  "\<exists>q1 r1 r3.
     parseReportType (split s (CHR '' ''), []) = (q1, r1) \<and>
     fst ` set r1 \<subseteq> {''reportType''} \<and>
     parseTime (parseICAO (q1, r1)) = Inr (tl (tl q1), r3) \<and>
     fst ` set r3 \<subseteq> earlyKeys \<and>
     map_of r3 ''ICAO'' = Some (js_of (index0 q1)) \<and>
     beforeWind s = Inr (parseModifier (tl (tl q1), r3))"
proof -
  obtain q1 r1 where s1: "parseReportType (split s (CHR '' ''), []) = (q1, r1)"
    by (cases "parseReportType (split s (CHR '' ''), [])")
  from parseReportType_cases [of "split s (CHR '' '')" "[]"] s1
  have k1: "fst ` set r1 \<subseteq> {''reportType''}"
    by (elim disjE exE conjE) (simp_all add: keys_set_prop)
  define r2 where "r2 = set_prop ''ICAO'' (js_of (index0 q1)) r1"
  have s2: "parseICAO (q1, r1) = (tl q1, r2)"
    by (cases q1) (simp_all add: parseICAO_def shift_def index0_def r2_def)
  have k2: "fst ` set r2 \<subseteq> earlyKeys" and i2: "map_of r2 ''ICAO'' = Some (js_of (index0 q1))"
    using k1 by (auto simp: r2_def keys_set_prop map_of_set_prop earlyKeys_def)
  from parseTime_cases [of "tl q1" r2] obtain r3
    where s3: "parseTime (tl q1, r2) = Inr (tl (tl q1), r3)"
      and r3: "r3 = r2 \<or> (\<exists>ps. r3 = set_prop ''timestamp'' (JObject ps) r2)"
    by auto
  from r3 k2 have k3: "fst ` set r3 \<subseteq> earlyKeys"
    by (elim disjE exE) (simp_all add: keys_set_prop earlyKeys_def)
  from r3 i2 have i3: "map_of r3 ''ICAO'' = Some (js_of (index0 q1))"
    by (elim disjE exE) (simp_all add: map_of_set_prop)
  have "beforeWind s = Inr (parseModifier (tl (tl q1), r3))"
    by (simp add: beforeWind_def split_nonempty s1 s2 s3)
  with s1 k1 s2 s3 k3 i3 show ?thesis by auto
qed

lemma beforeWind_total:
  "\<exists>q res. beforeWind s = Inr (q, res) \<and> fst ` set res \<subseteq> earlyKeys"
proof -
  from beforeWind_shape [of s] obtain q1 r3
    where k3: "fst ` set r3 \<subseteq> earlyKeys"
      and b: "beforeWind s = Inr (parseModifier (tl (tl q1), r3))"
    by blast
  from parseModifier_cases [of "tl (tl q1)" r3] k3
  have "fst ` set (snd (parseModifier (tl (tl q1), r3))) \<subseteq> earlyKeys"
    by (elim disjE exE conjE) (simp_all add: keys_set_prop earlyKeys_def)
  with b show ?thesis
    by (cases "parseModifier (tl (tl q1), r3)") auto
qed

lemma beforeWind_keys:
  "beforeWind s = Inr (q, res) \<Longrightarrow> fst ` set res \<subseteq> earlyKeys"
  using beforeWind_total [of s] by auto

lemma parseMETAR_after:
  "beforeWind s = Inr (q, res) \<Longrightarrow>
     parseMETAR (JString s) =
       (case q of
          [] \<Rightarrow> Inl TypeError
        | w # q' \<Rightarrow>
            Inr (JObject
                  [(''METAR'', JString s),
                   (''parsedMETAR'',
                    JObject (if windForm codeDirection isWordChar w
                             then res @ [(''wind'', windRecord w)] else res))]))"
proof (cases q)
  case Nil
  assume "beforeWind s = Inr (q, res)"
  with Nil show ?thesis by (simp add: parseMETAR_def parseWind_Nil)
next
  case (Cons w q')
  assume b: "beforeWind s = Inr (q, res)"
  from beforeWind_keys [OF b] have "''wind'' \<notin> fst ` set res"
    by (auto simp: earlyKeys_def)
  then have "set_prop ''wind'' (windRecord w) res = res @ [(''wind'', windRecord w)]"
    by (rule set_prop_new)
  with b Cons show ?thesis by (simp add: parseMETAR_def parseWind_Cons)
qed

lemma parseMETAR_Inr_shape:
  "parseMETAR (JString s) = Inr r \<Longrightarrow>
     \<exists>res. r = JObject [(''METAR'', JString s), (''parsedMETAR'', JObject res)]"
proof -
  assume r: "parseMETAR (JString s) = Inr r"
  from beforeWind_total [of s] obtain q res where b: "beforeWind s = Inr (q, res)" by blast
  from r parseMETAR_after [OF b] show ?thesis
    by (cases q) (auto split: if_splits)
qed

lemma windForm_mono:
  "(\<And>d. length d = 3 \<Longrightarrow> dir d \<Longrightarrow> dir' d) \<Longrightarrow> windForm dir unit w \<Longrightarrow> windForm dir' unit w"
  by (induction dir unit w rule: windForm.induct) simp_all

lemma station_keys:
  "parseICAO (parseReportType (ts, [])) = (q, res) \<Longrightarrow> fst ` set res \<subseteq> {''reportType'', ''ICAO''}"
proof -
  assume a: "parseICAO (parseReportType (ts, [])) = (q, res)"
  obtain q1 r1 where s1: "parseReportType (ts, []) = (q1, r1)"
    by (cases "parseReportType (ts, [])")
  from parseReportType_cases [of ts "[]"] s1
  have k1: "fst ` set r1 \<subseteq> {''reportType''}"
    by (elim disjE exE conjE) (simp_all add: keys_set_prop)
  from a s1 have "res = set_prop ''ICAO'' (js_of (index0 q1)) r1"
    by (cases q1) (simp_all add: parseICAO_def shift_def index0_def)
  with k1 show ?thesis by (auto simp: keys_set_prop)
qed

lemma parse_result:
  "parseMETAR (JString s) = Inr r \<Longrightarrow>
     \<exists>res t q.
        r = JObject [(''METAR'', JString s), (''parsedMETAR'', JObject res)] \<and>
        fst ` set res \<subseteq> insert ''wind'' earlyKeys \<and>
        fst (parseReportType (split s (CHR '' ''), [])) = t # q \<and>
        map_of res ''ICAO'' = Some (JString t)"
proof -
  assume r: "parseMETAR (JString s) = Inr r"
  from beforeWind_shape [of s] obtain q1 r1 r3
    where s1: "parseReportType (split s (CHR '' ''), []) = (q1, r1)"
      and k3: "fst ` set r3 \<subseteq> earlyKeys"
      and i3: "map_of r3 ''ICAO'' = Some (js_of (index0 q1))"
      and b: "beforeWind s = Inr (parseModifier (tl (tl q1), r3))"
    by blast
  obtain q4 r4 where s4: "parseModifier (tl (tl q1), r3) = (q4, r4)"
    by (cases "parseModifier (tl (tl q1), r3)")
  from parseModifier_cases [of "tl (tl q1)" r3] s4
  have q4: "q4 = tl (tl q1) \<or> (\<exists>t. tl (tl q1) = t # q4)"
    and r4: "r4 = r3 \<or> (\<exists>v. r4 = set_prop ''modifier'' v r3)"
    by auto
  from r4 k3 have k4: "fst ` set r4 \<subseteq> earlyKeys"
    by (elim disjE exE) (simp_all add: keys_set_prop earlyKeys_def)
  from r4 i3 have i4: "map_of r4 ''ICAO'' = Some (js_of (index0 q1))"
    by (elim disjE exE) (simp_all add: map_of_set_prop)
  from b s4 have b': "beforeWind s = Inr (q4, r4)" by simp
  from r parseMETAR_after [OF b'] obtain w q5 where q5: "q4 = w # q5"
    by (cases q4) simp_all
  with q4 have "tl (tl q1) \<noteq> []" by auto
  then obtain t q where q1: "q1 = t # q" by (cases q1) auto
  define res where
    "res = (if windForm codeDirection isWordChar w then r4 @ [(''wind'', windRecord w)] else r4)"
  from r parseMETAR_after [OF b'] q5
  have "r = JObject [(''METAR'', JString s), (''parsedMETAR'', JObject res)]"
    by (simp add: res_def)
  moreover from k4 have "fst ` set res \<subseteq> insert ''wind'' earlyKeys"
    by (auto simp: res_def)
  moreover from s1 q1 have "fst (parseReportType (split s (CHR '' ''), [])) = t # q"
    by simp
  moreover from i4 q1 have "map_of res ''ICAO'' = Some (JString t)"
    by (simp add: res_def index0_def js_of_def map_add_def)
  ultimately show ?thesis by blast
qed

text \<open>The length check of line 65 never fires, whatever the argument.\<close>

lemma length_check_never_fires:
  "parseMETAR v \<noteq> Inl (Error ''ERROR: Invalid data length'')"
proof (cases v)
  case (JString s)
  from beforeWind_total [of s] obtain q res where b: "beforeWind s = Inr (q, res)" by blast
  from parseMETAR_after [OF b] JString show ?thesis
    by (cases q) simp_all
qed (simp_all add: parseMETAR_def)

section \<open>The parser and its regular expression objects\<close>

text \<open>
  An object without flags answers as \<open>regex_exec\<close> does and is left as it was. Each step
  of the parser therefore computes what its heap-free form computes, and leaves the heap
  it was given with one new object at the end.
\<close>

lemma builtin_exec_plain:
  assumes "\<not> global R" and "\<not> sticky R"
  shows "builtin_exec R v = (regex_exec (source R) v, R)"
proof -
  have pair: "(case xs of [] \<Rightarrow> (None, if False then A else R)
               | m # ms \<Rightarrow> (Some m, if False then B m else R)) =
              (case xs of [] \<Rightarrow> None | m # ms \<Rightarrow> Some m, R)"
    for xs :: "mstate list" and A B
    by (cases xs) simp_all
  from assms show ?thesis
    by (simp add: builtin_exec_def regex_exec_def Let_def pair del: upt_Suc)
qed

lemma exec_at_fresh:
  "exec_at (length h) v (h @ [\<lparr>source = re, global = False, sticky = False, lastIndex = 0\<rparr>]) =
     (regex_exec re v, h @ [\<lparr>source = re, global = False, sticky = False, lastIndex = 0\<rparr>])"
  by (simp add: exec_at_def builtin_exec_plain)

lemma test_at_fresh:
  "test_at (length h) v (h @ [\<lparr>source = re, global = False, sticky = False, lastIndex = 0\<rparr>]) =
     (regex_test re v, h @ [\<lparr>source = re, global = False, sticky = False, lastIndex = 0\<rparr>])"
  by (simp add: test_at_def exec_at_fresh regex_test_def)

lemma groups_at_fresh:
  "groups_at (length h) m (h @ [\<lparr>source = re, global = False, sticky = False, lastIndex = 0\<rparr>]) =
     groups re m"
  by (simp add: groups_at_def)

lemmas fresh_simps = new_regexp_def exec_at_fresh test_at_fresh groups_at_fresh

lemma parseReportType_h_eq:
  "parseReportType_h st h =
     (parseReportType st,
      h @ [\<lparr>source = reportTypeRegex, global = False, sticky = False, lastIndex = 0\<rparr>])"
  by (cases st) (simp add: parseReportType_h_def parseReportType_def fresh_simps split: prod.splits)

lemma parseModifier_h_eq:
  "parseModifier_h st h =
     (parseModifier st,
      h @ [\<lparr>source = modifierRegex, global = False, sticky = False, lastIndex = 0\<rparr>])"
  by (cases st) (simp add: parseModifier_h_def parseModifier_def fresh_simps split: prod.splits)

lemma parseTime_h_eq:
  "parseTime_h st h =
     (parseTime st,
      h @ [\<lparr>source = timeRegex, global = False, sticky = False, lastIndex = 0\<rparr>])"
  by (cases st) (simp add: parseTime_h_def parseTime_def fresh_simps split: prod.splits sum.splits)

lemma parseWind_h_eq:
  "parseWind_h st h =
     (parseWind st,
      h @ [\<lparr>source = windRegex, global = False, sticky = False, lastIndex = 0\<rparr>])"
  by (cases st)
     (simp add: parseWind_h_def parseWind_def fresh_simps
           split: prod.splits sum.splits option.splits)

lemma parseMETAR_h_value: "fst (parseMETAR_h h v) = parseMETAR v"
  by (cases v)
     (auto simp: parseMETAR_h_def parseMETAR_def beforeWind_def parseICAO_h_def Let_def
                 parseReportType_h_eq parseModifier_h_eq parseTime_h_eq parseWind_h_eq
           split: prod.splits sum.splits)

lemma parseMETAR_h_frame: "take (length h) (snd (parseMETAR_h h v)) = h"
  by (cases v)
     (auto simp: parseMETAR_h_def parseICAO_h_def Let_def
                 parseReportType_h_eq parseModifier_h_eq parseTime_h_eq parseWind_h_eq
           split: prod.splits sum.splits)

text \<open>
  With the flag \<open>g\<close> the same two calls would differ: on the time pattern the first call
  matches and moves \<open>lastIndex\<close> to 7, the second starts there and fails.
\<close>

lemma global_flag_drifts:
  "builtin_exec \<lparr>source = timeRegex, global = True, sticky = False, lastIndex = 0\<rparr>
     (Some ''051900Z'') =
     (Some (7, [], [(''dayOfMonth'', ''05''), (''hours'', ''19''), (''mins'', ''00''),
                    (''timezone'', ''Z'')]),
      \<lparr>source = timeRegex, global = True, sticky = False, lastIndex = 7\<rparr>) \<and>
   builtin_exec \<lparr>source = timeRegex, global = True, sticky = False, lastIndex = 7\<rparr>
     (Some ''051900Z'') =
     (None, \<lparr>source = timeRegex, global = True, sticky = False, lastIndex = 0\<rparr>)"
  by code_simp

lemma parse_h_source_example:
  "fst (parseMETAR_h [] (JString ''CYTZ 212355Z 36007G15KT'')) =
     Inr (JObject
       [(''METAR'', JString ''CYTZ 212355Z 36007G15KT''),
        (''parsedMETAR'',
         JObject
          [(''ICAO'', JString ''CYTZ''),
           (''timestamp'',
            JObject
             [(''dayOfMonth'', JString ''21''), (''hours'', JString ''23''),
              (''mins'', JString ''55''), (''timezone'', JString ''Z'')]),
           (''wind'',
            JObject
             [(''direction'', JString ''360''), (''speed'', JString ''07''),
              (''gustingSpeed'', JString ''15''),
              (''speedUnits'', JString ''KT'')])])])"
  by code_simp

section \<open>Evaluations used as instances\<close>

text \<open>The example of the comments in the source, \<open>212355Z\<close> and \<open>36007G15KT\<close>.\<close>

lemma parse_source_example:
  "parseMETAR (JString ''CYTZ 212355Z 36007G15KT'') =
     Inr (JObject
       [(''METAR'', JString ''CYTZ 212355Z 36007G15KT''),
        (''parsedMETAR'',
         JObject
          [(''ICAO'', JString ''CYTZ''),
           (''timestamp'',
            JObject
             [(''dayOfMonth'', JString ''21''), (''hours'', JString ''23''),
              (''mins'', JString ''55''), (''timezone'', JString ''Z'')]),
           (''wind'',
            JObject
             [(''direction'', JString ''360''), (''speed'', JString ''07''),
              (''gustingSpeed'', JString ''15''),
              (''speedUnits'', JString ''KT'')])])])"
  by code_simp

lemma beforeWind_source_example:
  "beforeWind ''CYTZ 212355Z 36007G15KT'' =
     Inr ([''36007G15KT''],
          [(''ICAO'', JString ''CYTZ''),
           (''timestamp'',
            JObject
             [(''dayOfMonth'', JString ''21''), (''hours'', JString ''23''),
              (''mins'', JString ''55''), (''timezone'', JString ''Z'')])])"
  by code_simp

lemma beforeWind_bad_wind:
  "beforeWind ''CYTZ 212355Z AUTO 36007'' =
     Inr ([''36007''],
          [(''ICAO'', JString ''CYTZ''),
           (''timestamp'',
            JObject
             [(''dayOfMonth'', JString ''21''), (''hours'', JString ''23''),
              (''mins'', JString ''55''), (''timezone'', JString ''Z'')]),
           (''modifier'', JString ''AUTO'')])"
  by code_simp

lemma station_and_time_bad:
  "parseICAO (parseReportType (split ''CYTZ BADTIME AUTO 17011KT'' (CHR '' ''), [])) =
     (''BADTIME'' # [''AUTO'', ''17011KT''], [(''ICAO'', JString ''CYTZ'')])"
  by code_simp

section \<open>The claims\<close>

text \<open>
  C1. The specification says that a string which passes the initial checks always gets a
  result object and never an exception. The code reads \<open>wind.length\<close> before it tests
  the wind token, so a string with no token left at the wind position ends in a
  \<open>TypeError\<close>: \<open>parseMETAR("CYTZ")\<close> passes both initial checks and throws.
\<close>

theorem missing_wind_token_throws:
  "parseMETAR (JString ''CYTZ'') = Inl TypeError"
  by code_simp

text \<open>
  C2, as the specification states it, fails both ways: the token \<open>1701199\<close> has digits for
  units, not letters, and gets a wind record; the token \<open>VRB05KT\<close> has the
  form the specification describes and gets none, because the pattern spells the marker
  \<open>VBR\<close>.
\<close>

theorem wind_form_counterexample:
  "\<not> windForm specDirection isLetter ''1701199'' \<and>
   parseMETAR (JString ''CYTZ 051900Z 1701199'') =
     Inr (JObject
       [(''METAR'', JString ''CYTZ 051900Z 1701199''),
        (''parsedMETAR'',
         JObject
          [(''ICAO'', JString ''CYTZ''),
           (''timestamp'',
            JObject
             [(''dayOfMonth'', JString ''05''), (''hours'', JString ''19''),
              (''mins'', JString ''00''), (''timezone'', JString ''Z'')]),
           (''wind'',
            JObject
             [(''direction'', JString ''170''), (''speed'', JString ''11''),
              (''gustingSpeed'', JUndefined),
              (''speedUnits'', JString ''99'')])])]) \<and>
   windForm specDirection isLetter ''VRB05KT'' \<and>
   parseMETAR (JString ''CYTZ 051900Z VRB05KT'') =
     Inr (JObject
       [(''METAR'', JString ''CYTZ 051900Z VRB05KT''),
        (''parsedMETAR'',
         JObject
          [(''ICAO'', JString ''CYTZ''),
           (''timestamp'',
            JObject
             [(''dayOfMonth'', JString ''05''), (''hours'', JString ''19''),
              (''mins'', JString ''00''), (''timezone'', JString ''Z'')])])])"
  by code_simp

text \<open>
  C2, amended. For a token \<open>w\<close> at the wind position (the head of \<open>splitData\<close> when the wind
  step starts): if \<open>w\<close> is three digits, a 2-digit speed, an optional G with a 2-digit
  gust and two word characters (letter, digit or underscore), the result carries the
  wind record decomposed from \<open>w\<close> as its last key; if \<open>w\<close> is not of that form, also not
  with VRB or VBR in place of the three digits, the result carries no wind key.
\<close>

theorem wind_group_decomposed:
  "beforeWind s = Inr (w # rest, res) \<Longrightarrow>
     (windForm threeDigits isWordChar w \<longrightarrow>
        parseMETAR (JString s) =
          Inr (JObject [(''METAR'', JString s),
                        (''parsedMETAR'', JObject (res @ [(''wind'', windRecord w)]))])) \<and>
     (\<not> windForm anyDirection isWordChar w \<longrightarrow>
        parseMETAR (JString s) =
          Inr (JObject [(''METAR'', JString s), (''parsedMETAR'', JObject res)]) \<and>
        ''wind'' \<notin> fst ` set res)"
proof -
  assume b: "beforeWind s = Inr (w # rest, res)"
  have up: "windForm threeDigits isWordChar w \<Longrightarrow> windForm codeDirection isWordChar w"
    by (erule windForm_mono [rotated]) (simp add: codeDirection_def)
  have down: "windForm codeDirection isWordChar w \<Longrightarrow> windForm anyDirection isWordChar w"
    by (erule windForm_mono [rotated]) (auto simp: codeDirection_def anyDirection_def)
  from beforeWind_keys [OF b] have "''wind'' \<notin> fst ` set res"
    by (auto simp: earlyKeys_def)
  with parseMETAR_after [OF b] up down show ?thesis by auto
qed

text \<open>
  The amended C2 at two inputs: the wind token of the source's comment, which is
  decomposed, and a token that lacks the units, which gives no key.
\<close>

theorem wind_group_decomposed_witness:
  "(beforeWind ''CYTZ 212355Z 36007G15KT'' =
      Inr ([''36007G15KT''],
           [(''ICAO'', JString ''CYTZ''),
            (''timestamp'',
             JObject
              [(''dayOfMonth'', JString ''21''), (''hours'', JString ''23''),
               (''mins'', JString ''55''), (''timezone'', JString ''Z'')])]) \<and>
    windForm threeDigits isWordChar ''36007G15KT'' \<and>
    parseMETAR (JString ''CYTZ 212355Z 36007G15KT'') =
      Inr (JObject
        [(''METAR'', JString ''CYTZ 212355Z 36007G15KT''),
         (''parsedMETAR'',
          JObject
           [(''ICAO'', JString ''CYTZ''),
            (''timestamp'',
             JObject
              [(''dayOfMonth'', JString ''21''), (''hours'', JString ''23''),
               (''mins'', JString ''55''), (''timezone'', JString ''Z'')]),
            (''wind'',
             JObject
              [(''direction'', JString ''360''), (''speed'', JString ''07''),
               (''gustingSpeed'', JString ''15''),
               (''speedUnits'', JString ''KT'')])])])) \<and>
   (beforeWind ''CYTZ 212355Z AUTO 36007'' =
      Inr ([''36007''],
           [(''ICAO'', JString ''CYTZ''),
            (''timestamp'',
             JObject
              [(''dayOfMonth'', JString ''21''), (''hours'', JString ''23''),
               (''mins'', JString ''55''), (''timezone'', JString ''Z'')]),
            (''modifier'', JString ''AUTO'')]) \<and>
    \<not> windForm anyDirection isWordChar ''36007'' \<and>
    parseMETAR (JString ''CYTZ 212355Z AUTO 36007'') =
      Inr (JObject
        [(''METAR'', JString ''CYTZ 212355Z AUTO 36007''),
         (''parsedMETAR'',
          JObject
           [(''ICAO'', JString ''CYTZ''),
            (''timestamp'',
             JObject
              [(''dayOfMonth'', JString ''21''), (''hours'', JString ''23''),
               (''mins'', JString ''55''), (''timezone'', JString ''Z'')]),
            (''modifier'', JString ''AUTO'')])]))"
proof -
  have f1: "windForm threeDigits isWordChar ''36007G15KT''"
    by (simp add: threeDigits_def isDigit_def isWordChar_def)
  have f2: "\<not> windForm anyDirection isWordChar ''36007''"
    by simp
  from wind_group_decomposed [OF beforeWind_source_example] f1
       wind_group_decomposed [OF beforeWind_bad_wind] f2
       beforeWind_source_example beforeWind_bad_wind
  show ?thesis by simp
qed

text \<open>
  C3. The specification says that an empty or all-blank string fails with the
  invalid-input error of the length check. \<open>split(' ')\<close> never returns an empty array,
  so the check of line 65 cannot fire: three blanks give four empty tokens and a
  result whose station is the empty string, and the empty string runs on to the wind
  step and ends in a \<open>TypeError\<close> there.
\<close>

theorem blank_input_passes_length_check:
  "parseMETAR (JString ''   '') =
     Inr (JObject [(''METAR'', JString ''   ''),
                   (''parsedMETAR'', JObject [(''ICAO'', JString [])])]) \<and>
   parseMETAR (JString []) = Inl TypeError"
  by code_simp

text \<open>
  C4. \<open>parseMETAR("CYTZ 051900Z AUTO 17011KT")\<close> gives the station CYTZ, the timestamp of
  day 05, hour 19, minute 00 in zone Z, the modifier AUTO and the wind 170 at 11 KT
  with an undefined gust; the record has no \<open>reportType\<close> key.
\<close>

theorem parse_auto_report:
  "parseMETAR (JString ''CYTZ 051900Z AUTO 17011KT'') =
     Inr (JObject
       [(''METAR'', JString ''CYTZ 051900Z AUTO 17011KT''),
        (''parsedMETAR'',
         JObject
          [(''ICAO'', JString ''CYTZ''),
           (''timestamp'',
            JObject
             [(''dayOfMonth'', JString ''05''), (''hours'', JString ''19''),
              (''mins'', JString ''00''), (''timezone'', JString ''Z'')]),
           (''modifier'', JString ''AUTO''),
           (''wind'',
            JObject
             [(''direction'', JString ''170''), (''speed'', JString ''11''),
              (''gustingSpeed'', JUndefined),
              (''speedUnits'', JString ''KT'')])])])"
  by code_simp

text \<open>
  C5. A token in the date/time position that is not of the form DDHHMMZ is removed from
  the array, no \<open>timestamp\<close> key is set, and the modifier and wind steps run on the
  tokens after it; the returned record has no \<open>timestamp\<close> key. At
  \<open>"CYTZ BADTIME AUTO 17011KT"\<close> the record has the station, the modifier AUTO and the
  wind, and no timestamp.
\<close>

theorem mismatched_time_is_discarded:
  "parseMETAR (JString ''CYTZ BADTIME AUTO 17011KT'') =
     Inr (JObject
       [(''METAR'', JString ''CYTZ BADTIME AUTO 17011KT''),
        (''parsedMETAR'',
         JObject
          [(''ICAO'', JString ''CYTZ''),
           (''modifier'', JString ''AUTO''),
           (''wind'',
            JObject
             [(''direction'', JString ''170''), (''speed'', JString ''11''),
              (''gustingSpeed'', JUndefined),
              (''speedUnits'', JString ''KT'')])])]) \<and>
   (\<forall>s t rest res.
      parseICAO (parseReportType (split s (CHR '' ''), [])) = (t # rest, res) \<and> \<not> timeForm t \<longrightarrow>
        parseTime (t # rest, res) = Inr (rest, res) \<and>
        beforeWind s = Inr (parseModifier (rest, res)) \<and>
        (\<forall>r. parseMETAR (JString s) = Inr r \<longrightarrow>
           (\<exists>p. get_prop r ''parsedMETAR'' = Some p \<and> ''timestamp'' \<notin> set (keys p))))"
proof (intro conjI allI impI)
  show "parseMETAR (JString ''CYTZ BADTIME AUTO 17011KT'') =
     Inr (JObject
       [(''METAR'', JString ''CYTZ BADTIME AUTO 17011KT''),
        (''parsedMETAR'',
         JObject
          [(''ICAO'', JString ''CYTZ''),
           (''modifier'', JString ''AUTO''),
           (''wind'',
            JObject
             [(''direction'', JString ''170''), (''speed'', JString ''11''),
              (''gustingSpeed'', JUndefined),
              (''speedUnits'', JString ''KT'')])])])"
    by code_simp
next
  fix s t rest res
  assume "parseICAO (parseReportType (split s (CHR '' ''), [])) = (t # rest, res) \<and> \<not> timeForm t"
  then have st: "parseICAO (parseReportType (split s (CHR '' ''), [])) = (t # rest, res)"
    and nt: "\<not> timeForm t" by simp_all
  from nt show pt: "parseTime (t # rest, res) = Inr (rest, res)"
    by (rule parseTime_mismatch)
  with st show bw: "beforeWind s = Inr (parseModifier (rest, res))"
    by (simp add: beforeWind_def split_nonempty)
  fix r
  assume r: "parseMETAR (JString s) = Inr r"
  obtain q4 r4 where s4: "parseModifier (rest, res) = (q4, r4)"
    by (cases "parseModifier (rest, res)")
  from station_keys [OF st] have "''timestamp'' \<notin> fst ` set res" by auto
  with parseModifier_cases [of rest res] s4 have k4: "''timestamp'' \<notin> fst ` set r4"
    by (elim disjE exE conjE) (simp_all add: keys_set_prop)
  from bw s4 have "beforeWind s = Inr (q4, r4)" by simp
  from r parseMETAR_after [OF this] k4
  show "\<exists>p. get_prop r ''parsedMETAR'' = Some p \<and> ''timestamp'' \<notin> set (keys p)"
    by (cases q4) (auto split: if_splits)
qed

text \<open>
  The general part of C5 at the input of its example: the token \<open>BADTIME\<close> sits in the
  date/time position, is not of the form, and leaves the array without a key set.
\<close>

theorem mismatched_time_is_discarded_witness:
  "parseICAO (parseReportType (split ''CYTZ BADTIME AUTO 17011KT'' (CHR '' ''), [])) =
     (''BADTIME'' # [''AUTO'', ''17011KT''], [(''ICAO'', JString ''CYTZ'')]) \<and>
   \<not> timeForm ''BADTIME'' \<and>
   parseTime (''BADTIME'' # [''AUTO'', ''17011KT''], [(''ICAO'', JString ''CYTZ'')]) =
     Inr ([''AUTO'', ''17011KT''], [(''ICAO'', JString ''CYTZ'')]) \<and>
   beforeWind ''CYTZ BADTIME AUTO 17011KT'' =
     Inr (parseModifier ([''AUTO'', ''17011KT''], [(''ICAO'', JString ''CYTZ'')]))"
proof -
  have nt: "\<not> timeForm ''BADTIME''" by simp
  from mismatched_time_is_discarded station_and_time_bad nt
  have "parseTime (''BADTIME'' # [''AUTO'', ''17011KT''], [(''ICAO'', JString ''CYTZ'')]) =
          Inr ([''AUTO'', ''17011KT''], [(''ICAO'', JString ''CYTZ'')]) \<and>
        beforeWind ''CYTZ BADTIME AUTO 17011KT'' =
          Inr (parseModifier ([''AUTO'', ''17011KT''], [(''ICAO'', JString ''CYTZ'')]))"
    by blast
  with station_and_time_bad nt show ?thesis by blast
qed

text \<open>
  C6. \<open>parseMETAR("METAR CYTZ 051900Z 17011G20KT")\<close> takes the leading token into
  \<open>reportType\<close> and decomposes the gust group: \<open>reportType\<close> is METAR and the gust of the
  wind record is 20.
\<close>

theorem parse_metar_gust_report:
  "parseMETAR (JString ''METAR CYTZ 051900Z 17011G20KT'') =
     Inr (JObject
       [(''METAR'', JString ''METAR CYTZ 051900Z 17011G20KT''),
        (''parsedMETAR'',
         JObject
          [(''reportType'', JString ''METAR''),
           (''ICAO'', JString ''CYTZ''),
           (''timestamp'',
            JObject
             [(''dayOfMonth'', JString ''05''), (''hours'', JString ''19''),
              (''mins'', JString ''00''), (''timezone'', JString ''Z'')]),
           (''wind'',
            JObject
             [(''direction'', JString ''170''), (''speed'', JString ''11''),
              (''gustingSpeed'', JString ''20''),
              (''speedUnits'', JString ''KT'')])])])"
  by code_simp

text \<open>
  C7. Every argument that is not a string is rejected at once with the error of the
  type check.
\<close>

theorem non_string_rejected:
  "typeof v \<noteq> ''string'' \<Longrightarrow>
     parseMETAR v = Inl (Error ''ERROR: Invalid data; must be a string'')"
  by (cases v) (simp_all add: parseMETAR_def)

theorem non_string_rejected_witness:
  "typeof (JNumber 42) \<noteq> ''string'' \<and>
   parseMETAR (JNumber 42) = Inl (Error ''ERROR: Invalid data; must be a string'') \<and>
   typeof JNull \<noteq> ''string'' \<and>
   parseMETAR JNull = Inl (Error ''ERROR: Invalid data; must be a string'')"
  using non_string_rejected [of "JNumber 42"] non_string_rejected [of JNull] by simp

text \<open>
  C8. Whenever \<open>parseMETAR\<close> returns on a string, the \<open>METAR\<close> field of the result is that
  string, unchanged.
\<close>

theorem raw_string_kept:
  "parseMETAR (JString s) = Inr r \<Longrightarrow> get_prop r ''METAR'' = Some (JString s)"
  using parse_result [of s r] by auto

theorem raw_string_kept_witness:
  "get_prop
     (JObject
       [(''METAR'', JString ''CYTZ 212355Z 36007G15KT''),
        (''parsedMETAR'',
         JObject
          [(''ICAO'', JString ''CYTZ''),
           (''timestamp'',
            JObject
             [(''dayOfMonth'', JString ''21''), (''hours'', JString ''23''),
              (''mins'', JString ''55''), (''timezone'', JString ''Z'')]),
           (''wind'',
            JObject
             [(''direction'', JString ''360''), (''speed'', JString ''07''),
              (''gustingSpeed'', JString ''15''),
              (''speedUnits'', JString ''KT'')])])])
     ''METAR'' = Some (JString ''CYTZ 212355Z 36007G15KT'')"
  by (rule raw_string_kept [OF parse_source_example])

text \<open>
  C9. \<open>parseMETAR\<close> depends on its argument alone and leaves no state behind. Called on a
  string in any heap of \<open>RegExp\<close> objects, if it returns a result then the raw string kept
  in that result is a string which, parsed again in the heap the first call left, or in
  any heap whatever, gives the identical result; and the first call leaves every object
  that was there before it as it was.
\<close>

theorem reparse_gives_same_record:
  "fst (parseMETAR_h h (JString s)) = Inr r \<Longrightarrow>
     \<exists>s'. get_prop r ''METAR'' = Some (JString s') \<and>
          fst (parseMETAR_h (snd (parseMETAR_h h (JString s))) (JString s')) = Inr r \<and>
          (\<forall>h'. fst (parseMETAR_h h' (JString s')) = Inr r) \<and>
          take (length h) (snd (parseMETAR_h h (JString s))) = h"
proof -
  assume "fst (parseMETAR_h h (JString s)) = Inr r"
  then have p: "parseMETAR (JString s) = Inr r" by (simp add: parseMETAR_h_value)
  from parse_result [OF p] have "get_prop r ''METAR'' = Some (JString s)" by auto
  with p show ?thesis by (auto simp: parseMETAR_h_value parseMETAR_h_frame)
qed

theorem reparse_gives_same_record_witness:
  "fst (parseMETAR_h [] (JString ''CYTZ 212355Z 36007G15KT'')) =
     Inr (JObject
       [(''METAR'', JString ''CYTZ 212355Z 36007G15KT''),
        (''parsedMETAR'',
         JObject
          [(''ICAO'', JString ''CYTZ''),
           (''timestamp'',
            JObject
             [(''dayOfMonth'', JString ''21''), (''hours'', JString ''23''),
              (''mins'', JString ''55''), (''timezone'', JString ''Z'')]),
           (''wind'',
            JObject
             [(''direction'', JString ''360''), (''speed'', JString ''07''),
              (''gustingSpeed'', JString ''15''),
              (''speedUnits'', JString ''KT'')])])]) \<and>
   (\<exists>s'. get_prop
          (JObject
            [(''METAR'', JString ''CYTZ 212355Z 36007G15KT''),
             (''parsedMETAR'',
              JObject
               [(''ICAO'', JString ''CYTZ''),
                (''timestamp'',
                 JObject
                  [(''dayOfMonth'', JString ''21''), (''hours'', JString ''23''),
                   (''mins'', JString ''55''), (''timezone'', JString ''Z'')]),
                (''wind'',
                 JObject
                  [(''direction'', JString ''360''), (''speed'', JString ''07''),
                   (''gustingSpeed'', JString ''15''),
                   (''speedUnits'', JString ''KT'')])])])
          ''METAR'' = Some (JString s') \<and>
        fst (parseMETAR_h (snd (parseMETAR_h [] (JString ''CYTZ 212355Z 36007G15KT'')))
               (JString s')) =
          Inr (JObject
            [(''METAR'', JString ''CYTZ 212355Z 36007G15KT''),
             (''parsedMETAR'',
              JObject
               [(''ICAO'', JString ''CYTZ''),
                (''timestamp'',
                 JObject
                  [(''dayOfMonth'', JString ''21''), (''hours'', JString ''23''),
                   (''mins'', JString ''55''), (''timezone'', JString ''Z'')]),
                (''wind'',
                 JObject
                  [(''direction'', JString ''360''), (''speed'', JString ''07''),
                   (''gustingSpeed'', JString ''15''),
                   (''speedUnits'', JString ''KT'')])])]) \<and>
        (\<forall>h'. fst (parseMETAR_h h' (JString s')) =
          Inr (JObject
            [(''METAR'', JString ''CYTZ 212355Z 36007G15KT''),
             (''parsedMETAR'',
              JObject
               [(''ICAO'', JString ''CYTZ''),
                (''timestamp'',
                 JObject
                  [(''dayOfMonth'', JString ''21''), (''hours'', JString ''23''),
                   (''mins'', JString ''55''), (''timezone'', JString ''Z'')]),
                (''wind'',
                 JObject
                  [(''direction'', JString ''360''), (''speed'', JString ''07''),
                   (''gustingSpeed'', JString ''15''),
                   (''speedUnits'', JString ''KT'')])])])) \<and>
        take (length ([] :: heap)) (snd (parseMETAR_h [] (JString ''CYTZ 212355Z 36007G15KT''))) =
          [])"
proof -
  note e = parse_h_source_example
  from e reparse_gives_same_record [OF e] show ?thesis by (rule conjI)
qed

text \<open>
  C10. Whenever \<open>parseMETAR\<close> returns on a string, the keys of the parsed record are
  among \<open>reportType\<close>, \<open>ICAO\<close>, \<open>timestamp\<close>, \<open>modifier\<close> and \<open>wind\<close>; the key \<open>ICAO\<close> is
  there, and its value is the token in the station position (the head of the array after
  the optional report type), whatever that token is.
\<close>

theorem parsed_keys_and_station:
  "parseMETAR (JString s) = Inr r \<Longrightarrow>
     \<exists>p t q.
        get_prop r ''parsedMETAR'' = Some p \<and>
        set (keys p) \<subseteq> {''reportType'', ''ICAO'', ''timestamp'', ''modifier'', ''wind''} \<and>
        ''ICAO'' \<in> set (keys p) \<and>
        fst (parseReportType (split s (CHR '' ''), [])) = t # q \<and>
        get_prop p ''ICAO'' = Some (JString t)"
proof -
  assume "parseMETAR (JString s) = Inr r"
  from parse_result [OF this] obtain res t q
    where r: "r = JObject [(''METAR'', JString s), (''parsedMETAR'', JObject res)]"
      and k: "fst ` set res \<subseteq> insert ''wind'' earlyKeys"
      and t: "fst (parseReportType (split s (CHR '' ''), [])) = t # q"
      and i: "map_of res ''ICAO'' = Some (JString t)"
    by blast
  from i have "(''ICAO'', JString t) \<in> set res" by (rule map_of_SomeD)
  then have "''ICAO'' \<in> fst ` set res" by force
  with r k t i show ?thesis by (auto simp: earlyKeys_def)
qed

theorem parsed_keys_and_station_witness:
  "\<exists>p t q.
      get_prop
        (JObject
          [(''METAR'', JString ''CYTZ 212355Z 36007G15KT''),
           (''parsedMETAR'',
            JObject
             [(''ICAO'', JString ''CYTZ''),
              (''timestamp'',
               JObject
                [(''dayOfMonth'', JString ''21''), (''hours'', JString ''23''),
                 (''mins'', JString ''55''), (''timezone'', JString ''Z'')]),
              (''wind'',
               JObject
                [(''direction'', JString ''360''), (''speed'', JString ''07''),
                 (''gustingSpeed'', JString ''15''),
                 (''speedUnits'', JString ''KT'')])])])
        ''parsedMETAR'' = Some p \<and>
      set (keys p) \<subseteq> {''reportType'', ''ICAO'', ''timestamp'', ''modifier'', ''wind''} \<and>
      ''ICAO'' \<in> set (keys p) \<and>
      fst (parseReportType (split ''CYTZ 212355Z 36007G15KT'' (CHR '' ''), [])) = t # q \<and>
      get_prop p ''ICAO'' = Some (JString t)"
  by (rule parsed_keys_and_station [OF parse_source_example])

end
